theory Spec2Isabelle
  imports Complex_Main "HOL-Library.Word" "HOL-Library.Log_Nat"
begin

section \<open>Number model\<close>

text \<open>
  JavaScript numbers are IEEE-754 doubles. In the model of the whole loop body they are
  \<^typ>\<open>real\<close> and every arithmetic operation is exact: the properties proved of it concern
  the structure of the computation (which guard is taken when a control is zero, which
  field is read, which array slot is written, which bound a clamp enforces), not the last
  bit of a result. Where the last bit decides, which is at the luminance thresholds of the
  zone step, a second model of that step rounds every operation and every decimal literal
  to the nearest double. Bytes of the canvas's \<open>Uint8ClampedArray\<close> are \<^typ>\<open>8 word\<close>.
\<close>

section \<open>The adjustment pipeline (src/src/App.tsx)\<close>

subsection \<open>Parameters\<close>

text \<open>\<open>interface ColorAdjustments\<close>, lines 27--55.\<close>

record ColorAdjustments =
  temperature :: real
  tint :: real
  contrast :: real
  saturation :: real
  highlights :: real
  midtones :: real
  shadows :: real
  whites :: real
  blacks :: real
  redCurve :: "real list"
  greenCurve :: "real list"
  blueCurve :: "real list"
  rgbCurve :: "real list"
  selectiveRed :: real
  selectiveOrange :: real
  selectiveYellow :: real
  selectiveGreen :: real
  selectiveCyan :: real
  selectiveBlue :: real
  selectiveMagenta :: real
  saturationRed :: real
  saturationOrange :: real
  saturationYellow :: real
  saturationGreen :: real
  saturationCyan :: real
  saturationBlue :: real
  saturationMagenta :: real

text \<open>\<open>const defaultAdjustments\<close>, lines 57--85.\<close>

definition defaultAdjustments :: ColorAdjustments where
  "defaultAdjustments =
     \<lparr> temperature = 0, tint = 0, contrast = 0, saturation = 0,
       highlights = 0, midtones = 0, shadows = 0, whites = 0, blacks = 0,
       redCurve = [0, 25, 50, 75, 100],
       greenCurve = [0, 25, 50, 75, 100],
       blueCurve = [0, 25, 50, 75, 100],
       rgbCurve = [0, 25, 50, 75, 100],
       selectiveRed = 0, selectiveOrange = 0, selectiveYellow = 0, selectiveGreen = 0,
       selectiveCyan = 0, selectiveBlue = 0, selectiveMagenta = 0,
       saturationRed = 0, saturationOrange = 0, saturationYellow = 0, saturationGreen = 0,
       saturationCyan = 0, saturationBlue = 0, saturationMagenta = 0 \<rparr>"

subsection \<open>Pixels and the byte store\<close>

text \<open>
  \<open>ImageData.data\<close> is a flat \<open>Uint8ClampedArray\<close> of length \<open>4 * width * height\<close>; the
  loop \<open>for (let i = 0; i < data.length; i += 4)\<close> visits it in groups of four bytes
  \<open>data[i], data[i+1], data[i+2], data[i+3]\<close>. A buffer is therefore a list of such
  groups, in the same order.
\<close>

type_synonym pixel = "8 word \<times> 8 word \<times> 8 word \<times> 8 word"

type_synonym rgb = "real \<times> real \<times> real"

text \<open>Reading \<open>data[i]\<close> yields the byte as a number.\<close>

definition byteValue :: "8 word \<Rightarrow> real" where
  "byteValue w = real (unat w)"

text \<open>
  Writing a number into a \<open>Uint8ClampedArray\<close> slot (\<open>data[i] = r\<close>) converts it with
  ECMAScript's \<open>ToUint8Clamp\<close>: values at or below 0 give 0, values at or above 255 give
  255, anything else is rounded to the nearest integer, a tie going to the even one.
\<close>

definition toUint8Clamp :: "real \<Rightarrow> 8 word" where
  "toUint8Clamp v =
     (if v \<le> 0 then 0
      else if 255 \<le> v then 255
      else (let f = \<lfloor>v\<rfloor> in
            if real_of_int f + 1 / 2 < v then word_of_int (f + 1)
            else if v < real_of_int f + 1 / 2 then word_of_int f
            else if even f then word_of_int f
            else word_of_int (f + 1)))"

subsection \<open>The body of the per-pixel loop\<close>

text \<open>\<open>Math.min(255, Math.max(0, v))\<close>, the clamp every step ends with.\<close>

definition clamp255 :: "real \<Rightarrow> real" where
  "clamp255 v = min 255 (max 0 v)"

text \<open>Lines 180--184: temperature.\<close>

definition temperatureStep :: "ColorAdjustments \<Rightarrow> rgb \<Rightarrow> rgb" where
  "temperatureStep adj = (\<lambda>(r, g, b).
     if temperature adj \<noteq> 0 then
       (let temp = temperature adj / 100
        in (clamp255 (r + temp * 30), g, clamp255 (b - temp * 30)))
     else (r, g, b))"

text \<open>Lines 187--190: tint.\<close>

definition tintStep :: "ColorAdjustments \<Rightarrow> rgb \<Rightarrow> rgb" where
  "tintStep adj = (\<lambda>(r, g, b).
     if tint adj \<noteq> 0 then
       (let tnt = tint adj / 100
        in (r, clamp255 (g + tnt * 30), b))
     else (r, g, b))"

text \<open>
  Lines 193--199: contrast. The divisor \<open>255 * (259 - contrast)\<close> is zero only for a
  control value of \<open>25900 / 2.55\<close>, far outside the slider range; the theorems that depend
  on this step's arithmetic restrict the control to \<open>[-100, 100]\<close>.
\<close>

definition contrastStep :: "ColorAdjustments \<Rightarrow> rgb \<Rightarrow> rgb" where
  "contrastStep adj = (\<lambda>(r, g, b).
     if contrast adj \<noteq> 0 then
       (let contrast' = (contrast adj / 100) * 2.55;
            factor = (259 * (contrast' + 255)) / (255 * (259 - contrast'))
        in (clamp255 (factor * (r - 128) + 128),
            clamp255 (factor * (g - 128) + 128),
            clamp255 (factor * (b - 128) + 128)))
     else (r, g, b))"

text \<open>\<open>0.299 * r + 0.587 * g + 0.114 * b\<close>, computed at lines 204 and 211.\<close>

definition luma :: "rgb \<Rightarrow> real" where
  "luma = (\<lambda>(r, g, b). 0.299 * r + 0.587 * g + 0.114 * b)"

text \<open>Lines 202--208: saturation.\<close>

definition saturationStep :: "ColorAdjustments \<Rightarrow> rgb \<Rightarrow> rgb" where
  "saturationStep adj = (\<lambda>(r, g, b).
     if saturation adj \<noteq> 0 then
       (let sat = 1 + (saturation adj / 100);
            gray = luma (r, g, b)
        in (clamp255 (gray + sat * (r - gray)),
            clamp255 (gray + sat * (g - gray)),
            clamp255 (gray + sat * (b - gray))))
     else (r, g, b))"

text \<open>
  The three assignments \<open>r = Math.min(255, Math.max(0, r * factor))\<close> (and the same for
  \<open>g\<close>, \<open>b\<close>) that each branch of the zone step performs.
\<close>

definition scaleChannels :: "real \<Rightarrow> rgb \<Rightarrow> rgb" where
  "scaleChannels factor = (\<lambda>(r, g, b).
     (clamp255 (r * factor), clamp255 (g * factor), clamp255 (b * factor)))"

text \<open>Line 212: \<open>normalizedLum = luminance / 255\<close>.\<close>

definition normalizedLum :: "rgb \<Rightarrow> real" where
  "normalizedLum c = luma c / 255"

text \<open>Lines 214--229: highlights, midtones, shadows.\<close>

definition zoneStep :: "ColorAdjustments \<Rightarrow> rgb \<Rightarrow> rgb" where
  "zoneStep adj c =
     (let nl = normalizedLum c in
      if nl > 0.7 \<and> highlights adj \<noteq> 0 then
        scaleChannels (1 + (highlights adj / 100)) c
      else if nl \<ge> 0.3 \<and> nl \<le> 0.7 \<and> midtones adj \<noteq> 0 then
        scaleChannels (1 + (midtones adj / 100)) c
      else if nl < 0.3 \<and> shadows adj \<noteq> 0 then
        scaleChannels (1 + (shadows adj / 100)) c
      else c)"

text \<open>The five steps in the order of the loop body, lines 179--229.\<close>

definition adjustChannels :: "ColorAdjustments \<Rightarrow> rgb \<Rightarrow> rgb" where
  "adjustChannels adj c =
     zoneStep adj (saturationStep adj (contrastStep adj (tintStep adj (temperatureStep adj c))))"

text \<open>
  One iteration: read three bytes, transform, store three bytes (lines 175--177 and
  231--233). \<open>data[i + 3]\<close>, the alpha byte, is neither read nor written.
\<close>

definition applyPixel :: "ColorAdjustments \<Rightarrow> pixel \<Rightarrow> pixel" where
  "applyPixel adj = (\<lambda>(r, g, b, a).
     (case adjustChannels adj (byteValue r, byteValue g, byteValue b) of
        (r', g', b') \<Rightarrow> (toUint8Clamp r', toUint8Clamp g', toUint8Clamp b', a)))"

text \<open>The loop over the buffer, lines 174--234.\<close>

fun pixelLoop :: "ColorAdjustments \<Rightarrow> pixel list \<Rightarrow> pixel list" where
  "pixelLoop adj [] = []"
| "pixelLoop adj (p # ps) = applyPixel adj p # pixelLoop adj ps"

subsection \<open>The render step\<close>

text \<open>
  The component state \<open>applyAdjustments\<close> depends on, and the canvas it draws to.
  \<open>image\<close> is \<open>None\<close> while there is nothing to draw (the state variable is
  \<open>null\<close>, or the data URL does not decode, so that \<open>img.onload\<close> never runs); otherwise
  it holds the pixels that \<open>ctx.drawImage(img, 0, 0)\<close> puts on the canvas.
  \<open>canvasReady\<close> says that \<open>canvasRef.current\<close> and its 2D context exist. The canvas is
  resized to the image, so a buffer's dimensions are those of its source.
\<close>

record appState =
  image :: "pixel list option"
  adjustments :: ColorAdjustments
  showBefore :: bool
  canvasReady :: bool
  canvas :: "pixel list"

text \<open>
  \<open>applyAdjustments\<close>, lines 157--240: return early without an image or a canvas;
  otherwise draw the source image, then, unless the before-view is shown, read the canvas
  back, run the loop and put the result.
\<close>

definition applyAdjustments :: "appState \<Rightarrow> appState" where
  "applyAdjustments st =
     (case image st of
        None \<Rightarrow> st
      | Some img \<Rightarrow>
          if \<not> canvasReady st then st
          else
            (let st1 = st\<lparr>canvas := img\<rparr> in
             if \<not> showBefore st then
               (let data = canvas st1 in st1\<lparr>canvas := pixelLoop (adjustments st) data\<rparr>)
             else st1))"

section \<open>The zone step in double precision\<close>

subsection \<open>Rounding to the nearest double\<close>

text \<open>\<open>pow2 k\<close> is \<open>2\<close> to the power \<open>k\<close>, for an integer \<open>k\<close> of either sign.\<close>

definition pow2 :: "int \<Rightarrow> real" where
  "pow2 k = (if 0 \<le> k then 2 ^ nat k else 1 / 2 ^ nat (- k))"

text \<open>
  For \<open>a > 0\<close>, the exponent \<open>e\<close> with \<open>2 ^ e \<le> a < 2 ^ (e + 1)\<close>, computed from the
  bit length of an integer next to \<open>a\<close> or to \<open>1 / a\<close>.
\<close>

definition binaryExponent :: "real \<Rightarrow> int" where
  "binaryExponent a =
     (if 1 \<le> a then bitlen \<lfloor>a\<rfloor> - 1 else - bitlen (\<lceil>1 / a\<rceil> - 1))"

text \<open>The nearest integer, a tie going to the even one.\<close>

definition roundHalfEven :: "real \<Rightarrow> int" where
  "roundHalfEven m =
     (let f = \<lfloor>m\<rfloor> in
      if m < real_of_int f + 1 / 2 then f
      else if real_of_int f + 1 / 2 < m then f + 1
      else if even f then f else f + 1)"

text \<open>
  \<open>fl v\<close> is the double nearest to \<open>v\<close> (round to nearest, ties to even): a double with
  exponent \<open>e\<close> is an integer multiple of \<open>2 ^ (e - 52)\<close>, the 53-bit significand counted in
  units of the last place. The result of a JavaScript \<open>+\<close>, \<open>-\<close>, \<open>*\<close> or \<open>/\<close> on doubles
  is \<open>fl\<close> of the exact result, and a decimal literal denotes \<open>fl\<close> of its value. The model
  does not bound the exponent, so overflow and subnormal numbers are not represented;
  neither arises in the zone step for channels in \<open>[0, 255]\<close> unless a channel lies strictly
  between 0 and \<open>2 ^ (-1019)\<close>.
\<close>

definition fl :: "real \<Rightarrow> real" where
  "fl v =
     (if v = 0 then 0
      else (let q = pow2 (binaryExponent \<bar>v\<bar> - 52)
            in sgn v * real_of_int (roundHalfEven (\<bar>v\<bar> / q)) * q))"

subsection \<open>Lines 211--233 with every operation rounded\<close>

text \<open>
  Lines 211--212: \<open>luminance = 0.299 * r + 0.587 * g + 0.114 * b\<close>, evaluated left to
  right, and \<open>normalizedLum = luminance / 255\<close>.
\<close>

fun luminanceDouble :: "rgb \<Rightarrow> real" where
  "luminanceDouble (r, g, b) =
     fl (fl (fl (fl 0.299 * r) + fl (fl 0.587 * g)) + fl (fl 0.114 * b))"

definition normalizedLumDouble :: "rgb \<Rightarrow> real" where
  "normalizedLumDouble c = fl (luminanceDouble c / 255)"

text \<open>The three assignments of a branch; \<open>Math.min\<close> and \<open>Math.max\<close> do not round.\<close>

fun scaleChannelsDouble :: "real \<Rightarrow> rgb \<Rightarrow> rgb" where
  "scaleChannelsDouble factor (r, g, b) =
     (clamp255 (fl (r * factor)), clamp255 (fl (g * factor)), clamp255 (fl (b * factor)))"

text \<open>
  Lines 214--229. The thresholds are the doubles that the literals \<open>0.7\<close> and \<open>0.3\<close>
  denote; the factor is \<open>1 + (control / 100)\<close> with both operations rounded.
\<close>

definition zoneStepDouble :: "ColorAdjustments \<Rightarrow> rgb \<Rightarrow> rgb" where
  "zoneStepDouble adj c =
     (let nl = normalizedLumDouble c in
      if nl > fl 0.7 \<and> highlights adj \<noteq> 0 then
        scaleChannelsDouble (fl (1 + fl (highlights adj / 100))) c
      else if nl \<ge> fl 0.3 \<and> nl \<le> fl 0.7 \<and> midtones adj \<noteq> 0 then
        scaleChannelsDouble (fl (1 + fl (midtones adj / 100))) c
      else if nl < fl 0.3 \<and> shadows adj \<noteq> 0 then
        scaleChannelsDouble (fl (1 + fl (shadows adj / 100))) c
      else c)"

text \<open>Lines 231--233: the three stores into the byte array.\<close>

fun storeChannels :: "rgb \<Rightarrow> 8 word \<times> 8 word \<times> 8 word" where
  "storeChannels (r, g, b) = (toUint8Clamp r, toUint8Clamp g, toUint8Clamp b)"

section \<open>The curve widget (src/src/components/CurveEditor.tsx)\<close>

subsection \<open>Coordinates\<close>

text \<open>Lines 39--40.\<close>

definition CANVAS_SIZE :: real where
  "CANVAS_SIZE = 200"

definition PADDING :: real where
  "PADDING = 20"

text \<open>\<open>valueToCanvas\<close>, lines 44--50.\<close>

definition valueToCanvas :: "real \<Rightarrow> bool \<Rightarrow> real" where
  "valueToCanvas v isY =
     (let normalized = v / 100 in
      if isY then CANVAS_SIZE - PADDING - normalized * (CANVAS_SIZE - 2 * PADDING)
      else PADDING + normalized * (CANVAS_SIZE - 2 * PADDING))"

text \<open>\<open>canvasToValue\<close>, lines 53--60.\<close>

definition canvasToValue :: "real \<Rightarrow> bool \<Rightarrow> real" where
  "canvasToValue coord isY =
     (if isY then
        (let normalized = (CANVAS_SIZE - PADDING - coord) / (CANVAS_SIZE - 2 * PADDING)
         in max 0 (min 100 (normalized * 100)))
      else
        (let normalized = (coord - PADDING) / (CANVAS_SIZE - 2 * PADDING)
         in max 0 (min 100 (normalized * 100))))"

text \<open>
  \<open>interface Point\<close>, lines 7--10. The fields are \<open>x\<close> and \<open>y\<close> in the source; they carry
  a prefix here so that \<open>x\<close> and \<open>y\<close> stay free for the pointer position.
\<close>

record Point =
  point_x :: real
  point_y :: real

text \<open>
  \<open>getCurvePoints\<close>, lines 63--68: \<open>curve.map((y, index) => ...)\<close>. A point's \<open>x\<close> is
  computed from its index alone.
\<close>

definition getCurvePoints :: "real list \<Rightarrow> Point list" where
  "getCurvePoints curve =
     map (\<lambda>(index, yv). \<lparr>point_x = valueToCanvas (real index * 25) False,
                          point_y = valueToCanvas yv True\<rparr>)
       (enumerate 0 curve)"

subsection \<open>Hit-testing\<close>

text \<open>Lines 233 and 264: \<open>Math.sqrt((x - point.x) ** 2 + (y - point.y) ** 2)\<close>.\<close>

definition distance :: "real \<Rightarrow> real \<Rightarrow> Point \<Rightarrow> real" where
  "distance x y point = sqrt ((x - point_x point)\<^sup>2 + (y - point_y point)\<^sup>2)"

text \<open>
  The loop \<open>for (let i = 0; i < points.length; i++)\<close> of lines 231--240 and again of lines
  262--270: it leaves at the first point within 8 units (\<open>return\<close> in the first, \<open>break\<close>
  in the second). The list argument is the part of \<open>points\<close> from index \<open>i\<close> on.
\<close>

fun hitLoop :: "real \<Rightarrow> real \<Rightarrow> nat \<Rightarrow> Point list \<Rightarrow> nat option" where
  "hitLoop x y i [] = None"
| "hitLoop x y i (point # rest) =
     (if distance x y point \<le> 8 then Some i else hitLoop x y (Suc i) rest)"

subsection \<open>Interaction state and event handlers\<close>

text \<open>
  The three \<open>useState\<close> cells of lines 35--37, the cursor style the handlers set on the
  canvas, and whether \<open>canvasRef.current\<close> is set. The curve itself is not state of the
  widget: it is the \<open>curve\<close> prop, and a handler that changes it calls \<open>onChange\<close> with a
  new array. A handler therefore takes the curve as an argument and returns, next to the
  new state, the array passed to \<open>onChange\<close>, if any. The pointer position \<open>(x, y)\<close> is
  relative to the canvas (\<open>event.clientX - rect.left\<close>, \<open>event.clientY - rect.top\<close>).
\<close>

record widget =
  isDragging :: bool
  dragIndex :: int
  hoveredIndex :: int
  cursorStyle :: string
  canvasMounted :: bool


text \<open>
  \<open>handleMouseMove\<close>, lines 243--275. \<open>newCurve[dragIndex] = newY\<close> is a list update:
  \<open>dragIndex\<close> is only ever set by \<open>handleMouseDown\<close>, to an index of the curve, so the
  write is in range. (At an index past the end JavaScript would lengthen the array, which a
  list update does not do; the theorem about dragging assumes the index is in range.)
\<close>

definition handleMouseMove ::
  "real list \<Rightarrow> widget \<Rightarrow> real \<times> real \<Rightarrow> widget \<times> real list option" where
  "handleMouseMove curve st = (\<lambda>(x, y).
     if \<not> canvasMounted st then (st, None)
     else if isDragging st \<and> dragIndex st \<ge> 0 then
       (let newY = canvasToValue y True;
            newCurve = curve[nat (dragIndex st) := newY]
        in (st, Some newCurve))
     else
       (let points = getCurvePoints curve;
            newHoveredIndex = (case hitLoop x y 0 points of Some i \<Rightarrow> int i | None \<Rightarrow> - 1)
        in (st\<lparr>hoveredIndex := newHoveredIndex,
                cursorStyle := (if newHoveredIndex \<ge> 0 then ''pointer'' else ''default'')\<rparr>,
            None)))"

text \<open>\<open>handleMouseUp\<close>, lines 277--280.\<close>

definition handleMouseUp :: "widget \<Rightarrow> widget" where
  "handleMouseUp st = st\<lparr>isDragging := False, dragIndex := - 1\<rparr>"

text \<open>\<open>handleMouseLeave\<close>, lines 282--289.\<close>

definition handleMouseLeave :: "widget \<Rightarrow> widget" where
  "handleMouseLeave st =
     st\<lparr>hoveredIndex := - 1, isDragging := False, dragIndex := - 1,
        cursorStyle := (if canvasMounted st then ''default'' else cursorStyle st)\<rparr>"

text \<open>
  \<open>resetCurve\<close>, lines 291--293: its whole body is \<open>onChange([0, 25, 50, 75, 100])\<close>; it
  calls none of the state setters.
\<close>

definition resetCurve :: "widget \<Rightarrow> widget \<times> real list option" where
  "resetCurve st = (st, Some [0, 25, 50, 75, 100])"

section \<open>Ranges and example inputs\<close>

text \<open>Every channel lies in \<open>[0, 255]\<close>.\<close>

definition channelsInRange :: "rgb \<Rightarrow> bool" where
  "channelsInRange = (\<lambda>(r, g, b).
     0 \<le> r \<and> r \<le> 255 \<and> 0 \<le> g \<and> g \<le> 255 \<and> 0 \<le> b \<and> b \<le> 255)"

text \<open>Each of the seven controls the loop reads lies in the slider range \<open>[-100, 100]\<close>.\<close>

definition controlsInRange :: "ColorAdjustments \<Rightarrow> bool" where
  "controlsInRange adj =
     (- 100 \<le> temperature adj \<and> temperature adj \<le> 100 \<and>
      - 100 \<le> tint adj \<and> tint adj \<le> 100 \<and>
      - 100 \<le> contrast adj \<and> contrast adj \<le> 100 \<and>
      - 100 \<le> saturation adj \<and> saturation adj \<le> 100 \<and>
      - 100 \<le> highlights adj \<and> highlights adj \<le> 100 \<and>
      - 100 \<le> midtones adj \<and> midtones adj \<le> 100 \<and>
      - 100 \<le> shadows adj \<and> shadows adj \<le> 100)"

text \<open>Parameter records and widget states used as concrete inputs below.\<close>

definition contrastMax :: ColorAdjustments where
  "contrastMax = defaultAdjustments\<lparr>contrast := 100\<rparr>"

definition warm :: ColorAdjustments where
  "warm = defaultAdjustments\<lparr>temperature := 50\<rparr>"

definition warmOther :: ColorAdjustments where
  "warmOther = warm\<lparr>whites := 40, blacks := - 30,
     redCurve := [100, 75, 50, 25, 0], greenCurve := [0, 0, 0, 0, 0],
     blueCurve := [10, 20, 30, 40, 50], rgbCurve := [], selectiveRed := 5,
     saturationBlue := - 7\<rparr>"

definition desaturate :: ColorAdjustments where
  "desaturate = defaultAdjustments\<lparr>saturation := - 100\<rparr>"

definition zoneAdj :: ColorAdjustments where
  "zoneAdj = defaultAdjustments\<lparr>highlights := 50, midtones := - 50, shadows := 20\<rparr>"

definition brighten :: ColorAdjustments where
  "brighten = defaultAdjustments\<lparr>highlights := 50\<rparr>"

text \<open>
  The byte pixel (83, 247, 123) after the temperature step with temperature \<open>-96\<close>, in
  double arithmetic: \<open>temp = -96 / 100\<close>, \<open>r + temp * 30\<close>, \<open>b - temp * 30\<close>.
\<close>

definition cooledPixel :: rgb where
  "cooledPixel =
     (fl (83 + fl (fl (- 96 / 100) * 30)), 247, fl (123 - fl (fl (- 96 / 100) * 30)))"


definition draggingWidget :: widget where
  "draggingWidget = \<lparr>isDragging = True, dragIndex = 2, hoveredIndex = 2,
                      cursorStyle = ''pointer'', canvasMounted = True\<rparr>"

section \<open>Auxiliary facts\<close>

lemma toUint8Clamp_of_nat:
  assumes "n < 256"
  shows "toUint8Clamp (real n) = word_of_nat n"
proof -
  consider "n = 0" | "n = 255" | "0 < n" "n < 255"
    using assms by linarith
  then show ?thesis
  proof cases
    case 1
    then show ?thesis by (simp add: toUint8Clamp_def)
  next
    case 2
    then show ?thesis by (simp add: toUint8Clamp_def)
  next
    case 3
    then show ?thesis by (simp add: toUint8Clamp_def Let_def)
  qed
qed

lemma toUint8Clamp_byteValue: "toUint8Clamp (byteValue w) = w"
proof -
  have "unat w < 256" using unsigned_less [of w] by simp
  then have "toUint8Clamp (real (unat w)) = word_of_nat (unat w)"
    by (rule toUint8Clamp_of_nat)
  then show ?thesis by (simp add: byteValue_def)
qed

lemma adjustChannels_zero:
  assumes "temperature adj = 0" "tint adj = 0" "contrast adj = 0" "saturation adj = 0"
    "highlights adj = 0" "midtones adj = 0" "shadows adj = 0"
  shows "adjustChannels adj c = c"
  using assms
  by (cases c)
     (simp add: adjustChannels_def temperatureStep_def tintStep_def contrastStep_def
        saturationStep_def zoneStep_def Let_def)

lemma applyPixel_zero:
  assumes "temperature adj = 0" "tint adj = 0" "contrast adj = 0" "saturation adj = 0"
    "highlights adj = 0" "midtones adj = 0" "shadows adj = 0"
  shows "applyPixel adj p = p"
proof -
  obtain r g b a where p: "p = (r, g, b, a)" by (cases p) auto
  show ?thesis
    by (simp add: p applyPixel_def adjustChannels_zero [OF assms] toUint8Clamp_byteValue)
qed

lemma pixelLoop_zero:
  assumes "temperature adj = 0" "tint adj = 0" "contrast adj = 0" "saturation adj = 0"
    "highlights adj = 0" "midtones adj = 0" "shadows adj = 0"
  shows "pixelLoop adj buf = buf"
  by (induction buf) (simp_all add: applyPixel_zero [OF assms])

lemma earlier_steps_skipped:
  assumes "temperature adj = 0" "tint adj = 0" "contrast adj = 0" "saturation adj = 0"
  shows "adjustChannels adj c = zoneStep adj c"
  using assms
  by (cases c)
     (simp add: adjustChannels_def temperatureStep_def tintStep_def contrastStep_def
        saturationStep_def)

subsection \<open>Ranges\<close>

lemma clamp255_bounds: "0 \<le> clamp255 v \<and> clamp255 v \<le> 255"
  by (simp add: clamp255_def)

lemma temperatureStep_range: "channelsInRange c \<Longrightarrow> channelsInRange (temperatureStep adj c)"
  by (cases c) (simp add: channelsInRange_def temperatureStep_def Let_def clamp255_bounds)

lemma tintStep_range: "channelsInRange c \<Longrightarrow> channelsInRange (tintStep adj c)"
  by (cases c) (simp add: channelsInRange_def tintStep_def Let_def clamp255_bounds)

lemma contrastStep_range: "channelsInRange c \<Longrightarrow> channelsInRange (contrastStep adj c)"
  by (cases c) (simp add: channelsInRange_def contrastStep_def Let_def clamp255_bounds)

lemma saturationStep_range: "channelsInRange c \<Longrightarrow> channelsInRange (saturationStep adj c)"
  by (cases c) (simp add: channelsInRange_def saturationStep_def Let_def clamp255_bounds)

lemma scaleChannels_range: "channelsInRange (scaleChannels k c)"
  by (cases c) (simp add: channelsInRange_def scaleChannels_def clamp255_bounds)

lemma zoneStep_range: "channelsInRange c \<Longrightarrow> channelsInRange (zoneStep adj c)"
  by (simp add: zoneStep_def Let_def scaleChannels_range)

lemma unat_byte_le: "unat (w :: 8 word) \<le> 255"
  using unsigned_less [of w, where ?'a = nat] by simp

lemma byteValue_range: "0 \<le> byteValue w \<and> byteValue w \<le> 255"
proof -
  have "real (unat w) \<le> real 255"
    by (rule of_nat_mono) (rule unat_byte_le)
  moreover have "0 \<le> real (unat w)"
    by (rule of_nat_0_le_iff)
  ultimately show ?thesis
    unfolding byteValue_def by simp
qed

subsection \<open>Which parameters the loop reads\<close>

lemma adjustChannels_cong:
  assumes "temperature adj1 = temperature adj2" "tint adj1 = tint adj2"
    "contrast adj1 = contrast adj2" "saturation adj1 = saturation adj2"
    "highlights adj1 = highlights adj2" "midtones adj1 = midtones adj2"
    "shadows adj1 = shadows adj2"
  shows "adjustChannels adj1 = adjustChannels adj2"
proof
  fix c
  have "temperatureStep adj1 = temperatureStep adj2"
    unfolding temperatureStep_def assms ..
  moreover have "tintStep adj1 = tintStep adj2"
    unfolding tintStep_def assms ..
  moreover have "contrastStep adj1 = contrastStep adj2"
    unfolding contrastStep_def assms ..
  moreover have "saturationStep adj1 = saturationStep adj2"
    unfolding saturationStep_def assms ..
  moreover have "zoneStep adj1 = zoneStep adj2"
    unfolding zoneStep_def assms ..
  ultimately show "adjustChannels adj1 c = adjustChannels adj2 c"
    by (simp add: adjustChannels_def)
qed

lemma pixelLoop_cong:
  assumes "adjustChannels adj1 = adjustChannels adj2"
  shows "pixelLoop adj1 buf = pixelLoop adj2 buf"
  by (induction buf) (simp_all add: applyPixel_def assms)

subsection \<open>Concrete pixels\<close>

lemma contrastMax_channels:
  "adjustChannels contrastMax (byteValue 255, byteValue 0, byteValue 255) = (255, 0, 255)"
  by (simp add: adjustChannels_def temperatureStep_def tintStep_def contrastStep_def
        saturationStep_def zoneStep_def contrastMax_def defaultAdjustments_def byteValue_def
        clamp255_def Let_def normalizedLum_def luma_def)

lemma warm_first_pass: "applyPixel warm (100, 100, 100, 255) = (115, 100, 85, 255)"
  by (simp add: applyPixel_def adjustChannels_def temperatureStep_def tintStep_def
        contrastStep_def saturationStep_def zoneStep_def defaultAdjustments_def byteValue_def
        clamp255_def Let_def normalizedLum_def luma_def warm_def toUint8Clamp_def)

lemma warm_second_pass: "applyPixel warm (115, 100, 85, 255) = (130, 100, 70, 255)"
  by (simp add: applyPixel_def adjustChannels_def temperatureStep_def tintStep_def
        contrastStep_def saturationStep_def zoneStep_def defaultAdjustments_def byteValue_def
        clamp255_def Let_def normalizedLum_def luma_def warm_def toUint8Clamp_def)

lemma desaturate_channels:
  "adjustChannels desaturate (byteValue 200, byteValue 50, byteValue 50) = (94.85, 94.85, 94.85)"
  by (simp add: adjustChannels_def temperatureStep_def tintStep_def contrastStep_def
        saturationStep_def zoneStep_def defaultAdjustments_def byteValue_def clamp255_def Let_def
        normalizedLum_def luma_def desaturate_def)

lemma desaturate_pixel: "applyPixel desaturate (200, 50, 50, a) = (95, 95, 95, a)"
  by (simp add: applyPixel_def desaturate_channels toUint8Clamp_def)

lemma boundary_luminance: "normalizedLum (100, 218, 181) = 0.7"
  by (simp add: normalizedLum_def luma_def)

subsection \<open>Curve points and the hit loop\<close>

lemma canvasToValue_bounds: "0 \<le> canvasToValue coord isY \<and> canvasToValue coord isY \<le> 100"
  by (simp add: canvasToValue_def Let_def)


lemma nth_getCurvePoints:
  "j < length curve \<Longrightarrow>
   getCurvePoints curve ! j =
     \<lparr>point_x = valueToCanvas (real j * 25) False, point_y = valueToCanvas (curve ! j) True\<rparr>"
  by (simp add: getCurvePoints_def nth_enumerate_eq)













subsection \<open>The rounding function\<close>

lemma pow2_pos: "0 < pow2 k"
  by (simp add: pow2_def)

lemma pow2_nonneg_exp: "0 \<le> k \<Longrightarrow> pow2 k = 2 ^ nat k"
  by (simp add: pow2_def)

lemma pow2_neg_exp: "k \<le> 0 \<Longrightarrow> pow2 k = 1 / 2 ^ nat (- k)"
  by (cases "k = 0") (simp_all add: pow2_def)

lemma pow2_le_of_int:
  assumes "(2::int) ^ k \<le> n"
  shows "(2::real) ^ k \<le> real_of_int n"
proof -
  from assms have "real_of_int (2 ^ k) \<le> real_of_int n" by (simp only: of_int_le_iff)
  then show ?thesis by simp
qed

lemma of_int_le_pow2:
  assumes "n \<le> (2::int) ^ k"
  shows "real_of_int n \<le> (2::real) ^ k"
proof -
  from assms have "real_of_int n \<le> real_of_int (2 ^ k)" by (simp only: of_int_le_iff)
  then show ?thesis by simp
qed

text \<open>The exponent brackets its argument between two consecutive powers of two.\<close>

lemma binaryExponent_bounds:
  assumes "0 < a"
  shows "pow2 (binaryExponent a) \<le> a \<and> a < pow2 (binaryExponent a + 1)"
proof (cases "1 \<le> a")
  case True
  define n where "n = \<lfloor>a\<rfloor>"
  have n1: "1 \<le> n" using True by (simp add: n_def le_floor_iff)
  then have pos: "0 < n" by simp
  have k1: "1 \<le> bitlen n" using pos by (simp add: bitlen_alt_def)
  from bitlen_bounds [OF pos]
  have lo: "2 ^ nat (bitlen n - 1) \<le> n" and hi: "n < 2 ^ nat (bitlen n)" by simp_all
  have e: "binaryExponent a = bitlen n - 1" using True by (simp add: binaryExponent_def n_def)
  have "(2::real) ^ nat (bitlen n - 1) \<le> real_of_int n" using lo by (rule pow2_le_of_int)
  moreover have "real_of_int n \<le> a" by (simp add: n_def)
  ultimately have "(2::real) ^ nat (bitlen n - 1) \<le> a" by linarith
  then have A: "pow2 (bitlen n - 1) \<le> a" using k1 by (simp add: pow2_nonneg_exp)
  from hi have "n + 1 \<le> 2 ^ nat (bitlen n)" by simp
  then have "real_of_int (n + 1) \<le> (2::real) ^ nat (bitlen n)" by (rule of_int_le_pow2)
  moreover have "a < real_of_int (n + 1)" by (simp add: n_def)
  ultimately have "a < (2::real) ^ nat (bitlen n)" by linarith
  then have B: "a < pow2 (bitlen n)" using k1 by (simp add: pow2_nonneg_exp)
  from A B e show ?thesis by simp
next
  case False
  then have a1: "a < 1" by simp
  define y where "y = 1 / a"
  have y1: "1 < y" using assms a1 by (simp add: y_def)
  define n where "n = \<lceil>y\<rceil> - 1"
  have n1: "1 \<le> n" using y1 by (simp add: n_def less_ceiling_iff)
  then have pos: "0 < n" by simp
  have ny: "real_of_int n < y" by (simp add: n_def) linarith
  have yn: "y \<le> real_of_int (n + 1)" by (simp add: n_def)
  have k1: "1 \<le> bitlen n" using pos by (simp add: bitlen_alt_def)
  from bitlen_bounds [OF pos]
  have lo: "2 ^ nat (bitlen n - 1) \<le> n" and hi: "n < 2 ^ nat (bitlen n)" by simp_all
  have e: "binaryExponent a = - bitlen n"
    using False by (simp add: binaryExponent_def n_def y_def)
  from hi have "n + 1 \<le> 2 ^ nat (bitlen n)" by simp
  then have "real_of_int (n + 1) \<le> (2::real) ^ nat (bitlen n)" by (rule of_int_le_pow2)
  with yn have "y \<le> 2 ^ nat (bitlen n)" by linarith
  then have "1 / a \<le> 2 ^ nat (bitlen n)" by (simp add: y_def)
  then have "1 / 2 ^ nat (bitlen n) \<le> a" using assms
    by (simp add: field_simps)
  then have A: "pow2 (- bitlen n) \<le> a" using k1 by (simp add: pow2_neg_exp)
  have "(2::real) ^ nat (bitlen n - 1) \<le> real_of_int n" using lo by (rule pow2_le_of_int)
  with ny have "2 ^ nat (bitlen n - 1) < y" by linarith
  then have "2 ^ nat (bitlen n - 1) < 1 / a" by (simp add: y_def)
  then have "a < 1 / 2 ^ nat (bitlen n - 1)" using assms
    by (simp add: field_simps)
  moreover have "pow2 (- bitlen n + 1) = 1 / 2 ^ nat (bitlen n - 1)"
    using k1 pow2_neg_exp [of "- bitlen n + 1"] by simp
  ultimately have B: "a < pow2 (- bitlen n + 1)" by simp
  from A B e show ?thesis by simp
qed

lemma roundHalfEven_near: "\<bar>real_of_int (roundHalfEven m) - m\<bar> \<le> 1 / 2"
proof -
  have "real_of_int \<lfloor>m\<rfloor> \<le> m" "m < real_of_int \<lfloor>m\<rfloor> + 1" by linarith+
  then show ?thesis
    by (auto simp: roundHalfEven_def Let_def)
qed

text \<open>
  \<open>fl v\<close> is a multiple of the unit in the last place of \<open>v\<close> (by its definition) and lies
  within half a unit of \<open>v\<close>.
\<close>

lemma fl_nearest:
  assumes "v \<noteq> 0"
  shows "\<bar>fl v - v\<bar> \<le> pow2 (binaryExponent \<bar>v\<bar> - 52) / 2"
proof -
  define q where "q = pow2 (binaryExponent \<bar>v\<bar> - 52)"
  define n where "n = roundHalfEven (\<bar>v\<bar> / q)"
  have q: "0 < q" by (simp add: q_def pow2_pos)
  have f: "fl v = sgn v * real_of_int n * q"
    using assms by (simp add: fl_def Let_def q_def n_def)
  have "v = sgn v * (\<bar>v\<bar> / q) * q" using q by (simp add: sgn_real_def)
  then have "fl v - v = sgn v * q * (real_of_int n - \<bar>v\<bar> / q)"
    using f by (simp add: algebra_simps)
  then have "\<bar>fl v - v\<bar> = q * \<bar>real_of_int n - \<bar>v\<bar> / q\<bar>"
    using assms q by (simp add: abs_mult sgn_real_def)
  also have "\<dots> \<le> q * (1 / 2)"
    using q roundHalfEven_near [of "\<bar>v\<bar> / q"] by (intro mult_left_mono) (simp_all add: n_def)
  finally show ?thesis by (simp add: q_def)
qed

text \<open>The rules that evaluate \<open>fl\<close> at a number.\<close>

lemmas fl_eval = fl_def binaryExponent_def pow2_def roundHalfEven_def Let_def compute_bitlen

text \<open>
  The doubles of the three literals the zone claims name: \<open>0.7\<close> is
  0.6999999999999999555910790149937 and \<open>0.3\<close> is 0.299999999999999988897769753748.
\<close>

lemma threshold_doubles:
  "fl (7 / 10) = 3152519739159347 / 2 ^ 52"
  "fl (3 / 10) = 5404319552844595 / 2 ^ 54"
  "fl (2999 / 10000) = 5402518112993647 / 2 ^ 54"
  by (simp_all add: fl_eval)

lemma thresholds_ordered: "fl 0.2999 < fl 0.3" "fl 0.3 \<le> fl 0.7"
  by (simp_all add: fl_eval)

subsection \<open>Computed luminances\<close>

lemma cooledPixel_value:
  "cooledPixel = (3813985934429389 / 2 ^ 46, 247, 2670493841542349 / 2 ^ 44)"
  by (simp add: cooledPixel_def fl_eval)

lemma nl_at_07: "normalizedLumDouble (100, 218, 181) = fl 0.7"
  by (simp add: normalizedLumDouble_def fl_eval)

lemma nl_at_02999: "normalizedLumDouble (5, 125.5, 11.5) = fl 0.2999"
  by (simp add: normalizedLumDouble_def fl_eval)

lemma nl_at_03: "normalizedLumDouble (2, 106, 120) = fl 0.3"
  by (simp add: normalizedLumDouble_def fl_eval)

lemma nl_between: "fl 0.3 \<le> normalizedLumDouble (128, 128, 128) \<and>
   normalizedLumDouble (128, 128, 128) \<le> fl 0.7"
  by (simp add: normalizedLumDouble_def fl_eval)

lemma nl_above_07: "fl 0.7 < normalizedLumDouble cooledPixel"
  by (simp add: cooledPixel_value normalizedLumDouble_def fl_eval)

text \<open>
  The computed luminance can differ from the exact one in the last place, and with it the
  zone: the exact normalized luminance of (24, 108, 52) is 0.3, the computed one is
  0.29999999999999993, below the threshold.
\<close>

lemma nl_below_03: "normalizedLumDouble (24, 108, 52) < fl 0.3"
  by (simp add: normalizedLumDouble_def fl_eval)

lemma exact_and_computed_differ:
  "normalizedLum (24, 108, 52) = 0.3 \<and>
   normalizedLumDouble (24, 108, 52) = 5404319552844594 / 2 ^ 54"
  by (simp add: normalizedLum_def luma_def normalizedLumDouble_def fl_eval)

section \<open>Claims\<close>

text \<open>
  C1 (identity law). With every control at 0 and every curve at the identity ramp, that is
  with \<open>defaultAdjustments\<close>, the loop returns the buffer it was given, byte for byte, and a
  render pass leaves the decoded image on the canvas.
\<close>

theorem identity_law:
  "pixelLoop defaultAdjustments buf = buf \<and>
   canvas (applyAdjustments \<lparr>image = Some buf, adjustments = defaultAdjustments,
                             showBefore = sb, canvasReady = True, canvas = old\<rparr>) = buf"
proof -
  have "pixelLoop defaultAdjustments buf = buf"
    by (rule pixelLoop_zero) (simp_all add: defaultAdjustments_def)
  then show ?thesis
    by (simp add: applyAdjustments_def Let_def)
qed

text \<open>
  C2 (clamping law). For every input pixel and every parameter record whose controls lie in
  \<open>[-100, 100]\<close> (a single nonzero control is a special case, the extremes \<open>-100\<close> and
  \<open>100\<close> and the channel inputs 0 and 255 included), the three numbers the loop body
  assigns to \<open>data[i]\<close>, \<open>data[i + 1]\<close>, \<open>data[i + 2]\<close> lie in \<open>[0, 255]\<close>, and so do the
  stored bytes.
\<close>

theorem clamping_law:
  assumes "controlsInRange adj"
  shows "channelsInRange (adjustChannels adj (byteValue r, byteValue g, byteValue b)) \<and>
         (case applyPixel adj (r, g, b, a) of
            (r', g', b', a') \<Rightarrow> unat r' \<le> 255 \<and> unat g' \<le> 255 \<and> unat b' \<le> 255)"
proof -
  have "channelsInRange (byteValue r, byteValue g, byteValue b)"
    by (simp add: channelsInRange_def byteValue_range)
  then have 1: "channelsInRange (adjustChannels adj (byteValue r, byteValue g, byteValue b))"
    unfolding adjustChannels_def
    by (intro zoneStep_range saturationStep_range contrastStep_range tintStep_range
        temperatureStep_range)
  have 2: "(case applyPixel adj (r, g, b, a) of
            (r', g', b', a') \<Rightarrow> unat r' \<le> 255 \<and> unat g' \<le> 255 \<and> unat b' \<le> 255)"
    by (simp add: unat_byte_le split: prod.split)
  from 1 2 show ?thesis by simp
qed

text \<open>
  An instance at the extremes: contrast \<open>100\<close> alone, on the channel values 255, 0, 255.
  The contrast formula yields values above 255 and below 0 there, and the clamp brings
  them back to 255 and 0.
\<close>

theorem clamping_law_witness:
  "controlsInRange contrastMax \<and>
   channelsInRange (adjustChannels contrastMax (byteValue 255, byteValue 0, byteValue 255)) \<and>
   applyPixel contrastMax (255, 0, 255, 9) = (255, 0, 255, 9)"
proof -
  have h: "controlsInRange contrastMax"
    by (simp add: controlsInRange_def contrastMax_def defaultAdjustments_def)
  have v: "applyPixel contrastMax (255, 0, 255, 9) = (255, 0, 255, 9)"
    by (simp add: applyPixel_def contrastMax_channels toUint8Clamp_def)
  from h v clamping_law [OF h, of 255 0 255 9] show ?thesis by simp
qed

text \<open>
  C3 (zone partition), as amended. With the normalized luminance as the loop computes it,
  in double arithmetic, the zone step chooses: above 0.7 (strictly) the highlights control,
  from 0.3 to 0.7 (both ends included) the midtones control, below 0.3 the shadows control,
  the bounds being the doubles of the literals. So a pixel whose normalized luminance is
  exactly 0.7 is a midtones pixel, one at 0.2999 a shadows pixel, one at 0.3 a midtones
  pixel. The chosen control scales the three channels by \<open>1 + control / 100\<close> when it is
  nonzero and leaves them alone when it is zero; no other zone's factor is applied.
\<close>

theorem zone_partition:
  "(normalizedLumDouble c = fl 0.7 \<longrightarrow>
      zoneStepDouble adj c =
        (if midtones adj \<noteq> 0
         then scaleChannelsDouble (fl (1 + fl (midtones adj / 100))) c else c)) \<and>
   (normalizedLumDouble c = fl 0.2999 \<longrightarrow>
      zoneStepDouble adj c =
        (if shadows adj \<noteq> 0
         then scaleChannelsDouble (fl (1 + fl (shadows adj / 100))) c else c)) \<and>
   (normalizedLumDouble c = fl 0.3 \<longrightarrow>
      zoneStepDouble adj c =
        (if midtones adj \<noteq> 0
         then scaleChannelsDouble (fl (1 + fl (midtones adj / 100))) c else c)) \<and>
   (fl 0.7 < normalizedLumDouble c \<longrightarrow>
      zoneStepDouble adj c =
        (if highlights adj \<noteq> 0
         then scaleChannelsDouble (fl (1 + fl (highlights adj / 100))) c else c)) \<and>
   (fl 0.3 \<le> normalizedLumDouble c \<and> normalizedLumDouble c \<le> fl 0.7 \<longrightarrow>
      zoneStepDouble adj c =
        (if midtones adj \<noteq> 0
         then scaleChannelsDouble (fl (1 + fl (midtones adj / 100))) c else c)) \<and>
   (normalizedLumDouble c < fl 0.3 \<longrightarrow>
      zoneStepDouble adj c =
        (if shadows adj \<noteq> 0
         then scaleChannelsDouble (fl (1 + fl (shadows adj / 100))) c else c))"
proof -
  let ?nl = "normalizedLumDouble c"
  note o = thresholds_ordered
  have mid: "zoneStepDouble adj c =
        (if midtones adj \<noteq> 0
         then scaleChannelsDouble (fl (1 + fl (midtones adj / 100))) c else c)"
    if "fl 0.3 \<le> ?nl" "?nl \<le> fl 0.7"
    using that by (simp add: zoneStepDouble_def Let_def)
  have low: "zoneStepDouble adj c =
        (if shadows adj \<noteq> 0
         then scaleChannelsDouble (fl (1 + fl (shadows adj / 100))) c else c)"
    if "?nl < fl 0.3"
    using that o(2) by (simp add: zoneStepDouble_def Let_def)
  have high: "zoneStepDouble adj c =
        (if highlights adj \<noteq> 0
         then scaleChannelsDouble (fl (1 + fl (highlights adj / 100))) c else c)"
    if "fl 0.7 < ?nl"
    using that o(2) by (simp add: zoneStepDouble_def Let_def)
  have at07: "?nl = fl 0.7 \<longrightarrow> fl 0.3 \<le> ?nl \<and> ?nl \<le> fl 0.7"
    using o(2) by simp
  have at03: "?nl = fl 0.3 \<longrightarrow> fl 0.3 \<le> ?nl \<and> ?nl \<le> fl 0.7"
    using o(2) by simp
  have at02999: "?nl = fl 0.2999 \<longrightarrow> ?nl < fl 0.3"
    using o(1) by simp
  from mid low high at07 at03 at02999 show ?thesis by blast
qed

text \<open>
  Instances with highlights \<open>50\<close>, midtones \<open>-50\<close>, shadows \<open>20\<close>, one for each condition
  of the theorem, with the luminance computed as the loop computes it. The byte pixels
  (100, 218, 181) and (2, 106, 120) compute exactly the doubles of 0.7 and 0.3 and are
  halved; (5, 125.5, 11.5) computes the double of 0.2999 and is scaled by 1.2; the pixel
  (83, 247, 123) cooled by temperature \<open>-96\<close> computes 0.7000000000000001 and is scaled by
  1.5; (24, 108, 52) computes 0.29999999999999993 and is scaled by 1.2. Where the scaled
  channels are not short decimals the stored bytes are given.
\<close>

theorem zone_partition_witness:
  "normalizedLumDouble (100, 218, 181) = fl 0.7 \<and>
   zoneStepDouble zoneAdj (100, 218, 181) = (50, 109, 90.5) \<and>
   normalizedLumDouble (5, 125.5, 11.5) = fl 0.2999 \<and>
   storeChannels (zoneStepDouble zoneAdj (5, 125.5, 11.5)) = (6, 151, 14) \<and>
   normalizedLumDouble (2, 106, 120) = fl 0.3 \<and>
   zoneStepDouble zoneAdj (2, 106, 120) = (1, 53, 60) \<and>
   fl 0.7 < normalizedLumDouble cooledPixel \<and>
   storeChannels (zoneStepDouble zoneAdj cooledPixel) = (81, 255, 228) \<and>
   fl 0.3 \<le> normalizedLumDouble (128, 128, 128) \<and>
   normalizedLumDouble (128, 128, 128) \<le> fl 0.7 \<and>
   zoneStepDouble zoneAdj (128, 128, 128) = (64, 64, 64) \<and>
   normalizedLumDouble (24, 108, 52) < fl 0.3 \<and>
   storeChannels (zoneStepDouble zoneAdj (24, 108, 52)) = (29, 130, 62)"
proof -
  have z: "midtones zoneAdj = - 50" "shadows zoneAdj = 20" "highlights zoneAdj = 50"
    by (simp_all add: zoneAdj_def)
  have f: "fl (1 + fl (- 50 / 100)) = 1 / 2"
    "fl (1 + fl (20 / 100)) = 5404319552844595 / 2 ^ 52"
    "fl (1 + fl (50 / 100)) = 3 / 2"
    by (simp_all add: fl_eval)
  have a: "zoneStepDouble zoneAdj (100, 218, 181) = (50, 109, 90.5)"
    using zone_partition [of "(100, 218, 181)" zoneAdj] nl_at_07
    by (simp add: z f) (simp add: clamp255_def fl_eval)
  have b: "storeChannels (zoneStepDouble zoneAdj (5, 125.5, 11.5)) = (6, 151, 14)"
    using zone_partition [of "(5, 125.5, 11.5)" zoneAdj] nl_at_02999
    by (simp add: z f) (simp add: clamp255_def toUint8Clamp_def fl_eval)
  have c: "zoneStepDouble zoneAdj (2, 106, 120) = (1, 53, 60)"
    using zone_partition [of "(2, 106, 120)" zoneAdj] nl_at_03
    by (simp add: z f) (simp add: clamp255_def fl_eval)
  have d: "storeChannels (zoneStepDouble zoneAdj cooledPixel) = (81, 255, 228)"
    using zone_partition [of cooledPixel zoneAdj] nl_above_07
    by (simp add: z f) (simp add: cooledPixel_value clamp255_def toUint8Clamp_def fl_eval)
  have e: "zoneStepDouble zoneAdj (128, 128, 128) = (64, 64, 64)"
    using zone_partition [of "(128, 128, 128)" zoneAdj] nl_between
    by (simp add: z f) (simp add: clamp255_def fl_eval)
  have g: "storeChannels (zoneStepDouble zoneAdj (24, 108, 52)) = (29, 130, 62)"
    using zone_partition [of "(24, 108, 52)" zoneAdj] nl_below_03
    by (simp add: z f) (simp add: clamp255_def toUint8Clamp_def fl_eval)
  from a b c d e g nl_at_07 nl_at_02999 nl_at_03 nl_above_07 nl_between nl_below_03
  show ?thesis by blast
qed

text \<open>
  The boundary as the claim states it fails. The pixel (100, 218, 181) has luminance 178.5,
  normalized exactly 0.7, in exact and in double arithmetic alike. With highlights \<open>50\<close>
  and every other control 0, the highlights factor 1.5 would give (150, 255, 255); the zone
  step and the whole loop body leave the pixel as it is, because \<open>normalizedLum > 0.7\<close> is
  false at 0.7 and the midtones control is 0.
\<close>

theorem zone_boundary_not_highlights:
  "highlights brighten \<noteq> 0 \<and>
   normalizedLum (byteValue 100, byteValue 218, byteValue 181) = 0.7 \<and>
   scaleChannels (1 + highlights brighten / 100) (byteValue 100, byteValue 218, byteValue 181)
     = (150, 255, 255) \<and>
   zoneStep brighten (byteValue 100, byteValue 218, byteValue 181) = (100, 218, 181) \<and>
   applyPixel brighten (100, 218, 181, 255) = (100, 218, 181, 255) \<and>
   normalizedLumDouble (byteValue 100, byteValue 218, byteValue 181) = fl 0.7 \<and>
   scaleChannelsDouble (fl (1 + fl (highlights brighten / 100)))
     (byteValue 100, byteValue 218, byteValue 181) = (150, 255, 255) \<and>
   zoneStepDouble brighten (byteValue 100, byteValue 218, byteValue 181) = (100, 218, 181)"
proof -
  have b: "byteValue 100 = 100" "byteValue 218 = 218" "byteValue 181 = 181"
    by (simp_all add: byteValue_def)
  have h: "highlights brighten = 50" "midtones brighten = 0"
    by (simp_all add: brighten_def defaultAdjustments_def)
  have z: "zoneStep brighten (100, 218, 181) = (100, 218, 181)"
    by (simp add: zoneStep_def Let_def boundary_luminance h)
  have f: "temperature brighten = 0" "tint brighten = 0" "contrast brighten = 0"
    "saturation brighten = 0"
    by (simp_all add: brighten_def defaultAdjustments_def)
  have a: "adjustChannels brighten (100, 218, 181) = (100, 218, 181)"
    using earlier_steps_skipped [OF f, of "(100, 218, 181)"] z by simp
  have s: "scaleChannels (1 + highlights brighten / 100) (100, 218, 181) = (150, 255, 255)"
    by (simp add: h scaleChannels_def clamp255_def)
  have p: "applyPixel brighten (100, 218, 181, 255) = (100, 218, 181, 255)"
    using toUint8Clamp_byteValue [of 100] toUint8Clamp_byteValue [of 218]
      toUint8Clamp_byteValue [of 181]
    by (simp add: applyPixel_def b a)
  have hz: "highlights brighten \<noteq> 0"
    by (simp add: h)
  have sd: "scaleChannelsDouble (fl (1 + fl (highlights brighten / 100))) (100, 218, 181)
      = (150, 255, 255)"
    by (simp add: h clamp255_def fl_eval)
  have zd: "zoneStepDouble brighten (100, 218, 181) = (100, 218, 181)"
    using thresholds_ordered(2) by (simp add: zoneStepDouble_def Let_def nl_at_07 h)
  have exact: "highlights brighten \<noteq> 0 \<and>
     normalizedLum (byteValue 100, byteValue 218, byteValue 181) = 0.7 \<and>
     scaleChannels (1 + highlights brighten / 100) (byteValue 100, byteValue 218, byteValue 181)
       = (150, 255, 255) \<and>
     zoneStep brighten (byteValue 100, byteValue 218, byteValue 181) = (100, 218, 181) \<and>
     applyPixel brighten (100, 218, 181, 255) = (100, 218, 181, 255)"
    using hz s z p boundary_luminance by (simp add: b)
  have double: "normalizedLumDouble (byteValue 100, byteValue 218, byteValue 181) = fl 0.7 \<and>
     scaleChannelsDouble (fl (1 + fl (highlights brighten / 100)))
       (byteValue 100, byteValue 218, byteValue 181) = (150, 255, 255) \<and>
     zoneStepDouble brighten (byteValue 100, byteValue 218, byteValue 181) = (100, 218, 181)"
    using nl_at_07 sd zd by (simp only: b simp_thms)
  from exact double show ?thesis by blast
qed

text \<open>
  C4 (noninterference of the unwired parameters). Two parameter records that agree on
  temperature, tint, contrast, saturation, highlights, midtones and shadows give the same
  output buffer and the same canvas, whatever their whites, blacks, four curves, selective
  colour and per-colour saturation fields are.
\<close>

theorem unwired_noninterference:
  assumes "temperature adj1 = temperature adj2" "tint adj1 = tint adj2"
    "contrast adj1 = contrast adj2" "saturation adj1 = saturation adj2"
    "highlights adj1 = highlights adj2" "midtones adj1 = midtones adj2"
    "shadows adj1 = shadows adj2"
  shows "pixelLoop adj1 buf = pixelLoop adj2 buf \<and>
         canvas (applyAdjustments \<lparr>image = img, adjustments = adj1, showBefore = sb,
                                   canvasReady = cr, canvas = old\<rparr>) =
         canvas (applyAdjustments \<lparr>image = img, adjustments = adj2, showBefore = sb,
                                   canvasReady = cr, canvas = old\<rparr>)"
proof -
  have "adjustChannels adj1 = adjustChannels adj2"
    using assms by (rule adjustChannels_cong)
  then have "pixelLoop adj1 b = pixelLoop adj2 b" for b
    by (rule pixelLoop_cong)
  then show ?thesis
    by (simp add: applyAdjustments_def Let_def split: option.split)
qed

text \<open>
  An instance: two records with temperature \<open>50\<close> that differ in whites, blacks, all four
  curves, a selective colour and a per-colour saturation.
\<close>

theorem unwired_noninterference_witness:
  "temperature warm = temperature warmOther \<and> whites warm \<noteq> whites warmOther \<and>
   redCurve warm \<noteq> redCurve warmOther \<and>
   pixelLoop warm [(100, 100, 100, 255)] = pixelLoop warmOther [(100, 100, 100, 255)] \<and>
   pixelLoop warmOther [(100, 100, 100, 255)] = [(115, 100, 85, 255)]"
proof -
  have "pixelLoop warm [(100, 100, 100, 255)] = pixelLoop warmOther [(100, 100, 100, 255)]"
    using unwired_noninterference [of warm warmOther "[(100, 100, 100, 255)]" None False True "[]"]
    by (simp add: warm_def warmOther_def)
  then show ?thesis
    by (simp add: warm_first_pass) (simp add: warm_def warmOther_def defaultAdjustments_def)
qed

text \<open>
  C5 (curve reset), as amended. From every widget state, a drag in progress included, the
  reset action passes the identity vector \<open>[0, 25, 50, 75, 100]\<close> to \<open>onChange\<close> and leaves
  the interaction state as it was.
\<close>

theorem reset_emits_identity:
  "snd (resetCurve st) = Some [0, 25, 50, 75, 100] \<and> fst (resetCurve st) = st"
  by (simp add: resetCurve_def)

text \<open>
  Reset does not force the idle state: from a widget that is dragging point 2, the state
  after reset is still dragging point 2.
\<close>

theorem reset_keeps_dragging:
  "isDragging (fst (resetCurve draggingWidget)) \<and>
   dragIndex (fst (resetCurve draggingWidget)) = 2 \<and>
   dragIndex (fst (resetCurve draggingWidget)) \<noteq> - 1"
  by (simp add: resetCurve_def draggingWidget_def)

text \<open>
  C6 (idempotence), as amended. Running the render step again on its own result, with the
  same image and parameters, changes nothing: each run starts from the decoded source
  image, not from what the previous run left on the canvas.
\<close>

theorem render_idempotent: "applyAdjustments (applyAdjustments st) = applyAdjustments st"
  by (cases "image st") (simp_all add: applyAdjustments_def Let_def)

text \<open>
  The buffer transform itself is not idempotent: with temperature \<open>50\<close>, the pixel
  (100, 100, 100) becomes (115, 100, 85) after one application and (130, 100, 70) after two.
\<close>

theorem pipeline_not_idempotent:
  "pixelLoop warm (pixelLoop warm [(100, 100, 100, 255)]) \<noteq> pixelLoop warm [(100, 100, 100, 255)]"
  by (simp add: warm_first_pass warm_second_pass)

text \<open>
  C7 (full desaturation), as amended. With saturation \<open>-100\<close> and every other control 0,
  the pixel (200, 50, 50) gets the luminance \<open>0.299 * 200 + 0.587 * 50 + 0.114 * 50\<close>,
  which is 94.85, on all three channels; the stored bytes are 95, 95, 95 and alpha is kept.
\<close>

theorem full_desaturation:
  "luma (200, 50, 50) = 94.85 \<and>
   adjustChannels desaturate (byteValue 200, byteValue 50, byteValue 50) =
     (luma (200, 50, 50), luma (200, 50, 50), luma (200, 50, 50)) \<and>
   applyPixel desaturate (200, 50, 50, a) = (95, 95, 95, a)"
proof -
  have l: "luma (200, 50, 50) = 94.85"
    by (simp add: luma_def)
  then show ?thesis
    by (simp add: desaturate_channels desaturate_pixel)
qed

text \<open>
  The value the claim gives for that luminance, 95.05, is not what the loop computes: the
  channel value is 0.2 below it.
\<close>

theorem full_desaturation_not_95_05:
  "fst (adjustChannels desaturate (byteValue 200, byteValue 50, byteValue 50)) - 95.05 = - 0.2 \<and>
   luma (200, 50, 50) \<noteq> 95.05"
  by (simp add: desaturate_channels luma_def)



text \<open>
  C9 (drag frame property). While point \<open>i\<close> of the curve is dragged, a pointer move emits
  a curve that differs from the current one at index \<open>i\<close> only: entry \<open>i\<close> becomes the
  inverse Y mapping of the pointer's \<open>y\<close>, which lies in \<open>[0, 100]\<close>; the length, every
  other entry and every other point are the same; the \<open>x\<close> coordinate of every point,
  point \<open>i\<close> included, is the same. The interaction state is not changed by the move, so
  this holds at every move of the drag; the handlers that end it (\<open>handleMouseUp\<close>,
  \<open>handleMouseLeave\<close>) return a state only and emit no curve.
\<close>

theorem drag_frame:
  assumes "canvasMounted st" "isDragging st" "0 \<le> dragIndex st"
    "nat (dragIndex st) < length curve"
  shows "\<exists>newCurve.
           handleMouseMove curve st (x, y) = (st, Some newCurve) \<and>
           length newCurve = length curve \<and>
           newCurve ! nat (dragIndex st) = canvasToValue y True \<and>
           0 \<le> newCurve ! nat (dragIndex st) \<and> newCurve ! nat (dragIndex st) \<le> 100 \<and>
           (\<forall>j<length curve. j \<noteq> nat (dragIndex st) \<longrightarrow>
              newCurve ! j = curve ! j \<and>
              getCurvePoints newCurve ! j = getCurvePoints curve ! j) \<and>
           (\<forall>j<length curve.
              point_x (getCurvePoints newCurve ! j) = point_x (getCurvePoints curve ! j))"
proof -
  let ?i = "nat (dragIndex st)"
  let ?new = "curve[?i := canvasToValue y True]"
  have mv: "handleMouseMove curve st (x, y) = (st, Some ?new)"
    using assms by (simp add: handleMouseMove_def Let_def)
  have len: "length ?new = length curve" by simp
  have at: "?new ! ?i = canvasToValue y True" using assms(4) by simp
  have others: "\<forall>j<length curve. j \<noteq> ?i \<longrightarrow>
              ?new ! j = curve ! j \<and> getCurvePoints ?new ! j = getCurvePoints curve ! j"
    by (simp add: nth_getCurvePoints)
  have xs: "\<forall>j<length curve.
              point_x (getCurvePoints ?new ! j) = point_x (getCurvePoints curve ! j)"
    by (simp add: nth_getCurvePoints)
  from mv len at others xs canvasToValue_bounds [of y True] show ?thesis
    by (intro exI [of _ ?new]) (simp only: simp_thms)
qed

text \<open>
  Instances on the identity curve with point 2 dragged: a pointer at height 60 sets entry 2
  to 75; a pointer far below the canvas, at height 500, sets it to the clamped value 0. The
  other four entries stay 0, 25, 75, 100.
\<close>

theorem drag_frame_witness:
  "canvasMounted draggingWidget \<and> isDragging draggingWidget \<and> 0 \<le> dragIndex draggingWidget \<and>
   nat (dragIndex draggingWidget) < length [0, 25, 50, 75, 100 :: real] \<and>
   handleMouseMove [0, 25, 50, 75, 100] draggingWidget (37, 60) =
     (draggingWidget, Some [0, 25, 75, 75, 100]) \<and>
   handleMouseMove [0, 25, 50, 75, 100] draggingWidget (37, 500) =
     (draggingWidget, Some [0, 25, 0, 75, 100])"
proof -
  have h: "canvasMounted draggingWidget" "isDragging draggingWidget"
    "0 \<le> dragIndex draggingWidget"
    "nat (dragIndex draggingWidget) < length [0, 25, 50, 75, 100 :: real]"
    by (simp_all add: draggingWidget_def)
  have i: "nat (dragIndex draggingWidget) = 2"
    by (simp add: draggingWidget_def)
  have v: "canvasToValue 60 True = 75" "canvasToValue 500 True = 0"
    by (simp_all add: canvasToValue_def CANVAS_SIZE_def PADDING_def)
  have l: "xs = [0, 25, v, 75, 100]"
    if "length xs = 5" "xs ! 2 = v" "\<forall>j<5. j \<noteq> 2 \<longrightarrow> xs ! j = [0, 25, 50, 75, 100 :: real] ! j"
    for xs :: "real list" and v
    using that by (auto simp: list_eq_iff_nth_eq less_Suc_eq numeral_eq_Suc nth_Cons')
  have a: "handleMouseMove [0, 25, 50, 75, 100] draggingWidget (37, 60) =
     (draggingWidget, Some [0, 25, 75, 75, 100])"
    using drag_frame [OF h, of 37 60] l [of _ 75] by (auto simp: i v)
  have b: "handleMouseMove [0, 25, 50, 75, 100] draggingWidget (37, 500) =
     (draggingWidget, Some [0, 25, 0, 75, 100])"
    using drag_frame [OF h, of 37 500] l [of _ 0] by (auto simp: i v)
  from h a b show ?thesis by simp
qed

text \<open>
  C10 (before-view bypass). When \<open>showBefore\<close> is set and there is an image and a canvas to
  draw it on, the render step leaves exactly the source buffer on the canvas, whatever the
  adjustment parameters are: the per-pixel loop is not run.
\<close>

theorem before_view_bypass:
  assumes "showBefore st" "canvasReady st" "image st = Some img"
  shows "canvas (applyAdjustments st) = img \<and>
         canvas (applyAdjustments (st\<lparr>adjustments := adj'\<rparr>)) = img"
  using assms by (simp add: applyAdjustments_def Let_def)

text \<open>
  An instance: with full desaturation selected, the before-view shows the pixel
  (200, 50, 50) as it is, while the after-view shows it as (95, 95, 95).
\<close>

theorem before_view_bypass_witness:
  "showBefore \<lparr>image = Some [(200, 50, 50, 255)], adjustments = desaturate,
                showBefore = True, canvasReady = True, canvas = []\<rparr> \<and>
   canvas (applyAdjustments \<lparr>image = Some [(200, 50, 50, 255)], adjustments = desaturate,
                             showBefore = True, canvasReady = True, canvas = []\<rparr>)
     = [(200, 50, 50, 255)] \<and>
   canvas (applyAdjustments \<lparr>image = Some [(200, 50, 50, 255)], adjustments = desaturate,
                             showBefore = False, canvasReady = True, canvas = []\<rparr>)
     = [(95, 95, 95, 255)]"
  using before_view_bypass [of "\<lparr>image = Some [(200, 50, 50, 255)], adjustments = desaturate,
                             showBefore = True, canvasReady = True, canvas = []\<rparr>"
                            "[(200, 50, 50, 255)]" warm]
  by (simp add: applyAdjustments_def Let_def desaturate_pixel)

end
